theory Spec2Isabelle
  imports Complex_Main
begin

section \<open>Python strings and values\<close>

text \<open>
  Strings are \<open>char list\<close>. State codes, names, colours and titles are ASCII; the
  case conversions below are Python's \<open>str.upper\<close> and \<open>str.title\<close> on ASCII
  letters, and leave every other character unchanged.
\<close>

definition upper_table :: "(char \<times> char) list" where
  "upper_table = zip ''abcdefghijklmnopqrstuvwxyz'' ''ABCDEFGHIJKLMNOPQRSTUVWXYZ''"

definition lower_table :: "(char \<times> char) list" where
  "lower_table = zip ''ABCDEFGHIJKLMNOPQRSTUVWXYZ'' ''abcdefghijklmnopqrstuvwxyz''"

definition upper_char :: "char \<Rightarrow> char" where
  "upper_char c = (case map_of upper_table c of Some u \<Rightarrow> u | None \<Rightarrow> c)"

definition lower_char :: "char \<Rightarrow> char" where
  "lower_char c = (case map_of lower_table c of Some l \<Rightarrow> l | None \<Rightarrow> c)"

definition is_cased :: "char \<Rightarrow> bool" where
  "is_cased c = (map_of upper_table c \<noteq> None \<or> map_of lower_table c \<noteq> None)"

text \<open>\<open>s.upper()\<close>\<close>

definition upper :: "string \<Rightarrow> string" where
  "upper s = map upper_char s"

text \<open>\<open>s.title()\<close>: a letter that follows a letter is lower-cased, any other letter is
  upper-cased. The flag says whether the previous character was a letter.\<close>

fun title_from :: "bool \<Rightarrow> string \<Rightarrow> string" where
  "title_from prev [] = []"
| "title_from prev (c # cs) =
     (if is_cased c
      then (if prev then lower_char c else upper_char c) # title_from True cs
      else c # title_from False cs)"

definition title :: "string \<Rightarrow> string" where
  "title s = title_from False s"

text \<open>\<open>str(n)\<close> for an integer, as an f-string prints it.\<close>

definition digit_char :: "nat \<Rightarrow> char" where
  "digit_char d = ''0123456789'' ! d"

fun digits :: "nat \<Rightarrow> string" where
  "digits n = (if n < 10 then [digit_char n] else digits (n div 10) @ [digit_char (n mod 10)])"

declare digits.simps [simp del]

definition str_int :: "int \<Rightarrow> string" where
  "str_int i = (if i < 0 then CHR ''-'' # digits (nat (- i)) else digits (nat i))"

text \<open>An f-string field holding the result of \<open>dict.get\<close>: \<open>None\<close> prints as \<open>None\<close>.\<close>

definition fmt :: "string option \<Rightarrow> string" where
  "fmt v = (case v of None \<Rightarrow> ''None'' | Some s \<Rightarrow> s)"

text \<open>Truth value of an \<open>Optional[str]\<close>: \<open>None\<close> and the empty string are false.\<close>

definition truthy :: "string option \<Rightarrow> bool" where
  "truthy v = (case v of None \<Rightarrow> False | Some s \<Rightarrow> s \<noteq> [])"

section \<open>State registry\<close>

definition statecodes_items :: "(string \<times> string) list" where
  "statecodes_items =
    [(''AL'', ''Alabama''), (''AK'', ''Alaska''), (''AZ'', ''Arizona''), (''AR'', ''Arkansas''),
     (''CA'', ''California''), (''CO'', ''Colorado''), (''CT'', ''Connecticut''),
     (''DE'', ''Delaware''), (''DC'', ''District of Columbia''), (''FL'', ''Florida''),
     (''GA'', ''Georgia''), (''HI'', ''Hawaii''), (''ID'', ''Idaho''), (''IL'', ''Illinois''),
     (''IN'', ''Indiana''), (''IA'', ''Iowa''), (''KS'', ''Kansas''), (''KY'', ''Kentucky''),
     (''LA'', ''Louisiana''), (''ME'', ''Maine''), (''MD'', ''Maryland''),
     (''MA'', ''Massachusetts''), (''MI'', ''Michigan''), (''MN'', ''Minnesota''),
     (''MS'', ''Mississippi''), (''MO'', ''Missouri''), (''MT'', ''Montana''),
     (''NE'', ''Nebraska''), (''NV'', ''Nevada''), (''NH'', ''New Hampshire''),
     (''NJ'', ''New Jersey''), (''NM'', ''New Mexico''), (''NY'', ''New York''),
     (''NC'', ''North Carolina''), (''ND'', ''North Dakota''), (''OH'', ''Ohio''),
     (''OK'', ''Oklahoma''), (''OR'', ''Oregon''), (''PA'', ''Pennsylvania''),
     (''RI'', ''Rhode Island''), (''SC'', ''South Carolina''), (''SD'', ''South Dakota''),
     (''TN'', ''Tennessee''), (''TX'', ''Texas''), (''UT'', ''Utah''), (''VT'', ''Vermont''),
     (''VA'', ''Virginia''), (''WA'', ''Washington''), (''WV'', ''West Virginia''),
     (''WI'', ''Wisconsin''), (''WY'', ''Wyoming'')]"

text \<open>The dictionary \<open>statecodes\<close>; \<open>statecodes c\<close> is \<open>statecodes.get(c)\<close>.\<close>

definition statecodes :: "string \<rightharpoonup> string" where
  "statecodes = map_of statecodes_items"

text \<open>\<open>v in statecodes\<close> for an \<open>Optional[str]\<close>: \<open>None\<close> is not a key.\<close>

definition in_statecodes :: "string option \<Rightarrow> bool" where
  "in_statecodes v = (case v of None \<Rightarrow> False | Some s \<Rightarrow> statecodes s \<noteq> None)"

section \<open>Errors\<close>

text \<open>
  \<open>HTTPException\<close> carries the status code and the detail message. \<open>ReadCsvError\<close> is
  \<open>pd.read_csv\<close> raising on the given URL, \<open>ValueError\<close> is \<open>min()\<close> of an empty
  sequence; neither is caught, so the framework answers with a server error.
\<close>

datatype error = HTTPException int string | ReadCsvError string | ValueError

definition bind_err :: "error + 'a \<Rightarrow> ('a \<Rightarrow> error + 'b) \<Rightarrow> error + 'b" where
  "bind_err r f = (case r of Inl e \<Rightarrow> Inl e | Inr v \<Rightarrow> f v)"

section \<open>Request normalizer\<close>

text \<open>Lines 62 to 76 of \<open>unemployment_visualization\<close>: upper-casing and validation.\<close>

definition validate ::
  "string \<Rightarrow> string option \<Rightarrow> string option \<Rightarrow> error + (string \<times> string option \<times> string option)"
where
  "validate statecode0 statecode2_0 statecode3_0 =
    (let statecode = upper statecode0;
         statecode2 = (if truthy statecode2_0 then map_option upper statecode2_0 else statecode2_0);
         statecode3 = (if truthy statecode3_0 then map_option upper statecode3_0 else statecode3_0)
     in if \<not> in_statecodes (Some statecode)
        then Inl (HTTPException 404 (''State code '' @ statecode @ '' not found''))
        else if \<not> in_statecodes statecode2 \<and> truthy statecode2
        then Inl (HTTPException 404 (''State code '' @ fmt statecode2 @ '' not found''))
        else if \<not> in_statecodes statecode3 \<and> truthy statecode3
        then Inl (HTTPException 404 (''State code '' @ fmt statecode3 @ '' not found''))
        else Inr (statecode, statecode2, statecode3))"

text \<open>Lines 78 to 93: four \<open>if\<close> statements run one after the other, each on the slots
  as the previous ones left them.\<close>

definition dedup :: "string \<Rightarrow> string option \<Rightarrow> string option \<Rightarrow> string option \<times> string option"
where
  "dedup statecode statecode2_0 statecode3_0 =
    (let (statecode2, statecode3) =
           (if Some statecode = statecode2_0 \<and> statecode2_0 = statecode3_0
            then (None, None) else (statecode2_0, statecode3_0));
         statecode3 = (if Some statecode = statecode3 then None else statecode3);
         statecode3 = (if statecode2 = statecode3 then None else statecode3)
     in if Some statecode = statecode2
        then (if truthy statecode3 then (statecode3, None) else (None, statecode3))
        else (statecode2, statecode3))"



definition normalize_request ::
  "string \<Rightarrow> string option \<Rightarrow> string option \<Rightarrow> error + (string \<times> string option \<times> string option)"
where
  "normalize_request statecode statecode2 statecode3 =
    bind_err (validate statecode statecode2 statecode3)
      (\<lambda>(c1, c2, c3). Inr (c1, dedup c1 c2 c3))"

section \<open>Time series\<close>

text \<open>
  A data frame as \<open>pd.read_csv\<close> returns it and the code renames it: rows of the two
  columns \<open>Date\<close> and \<open>Percent\<close>. Percentages and their means are rationals; \<open>None\<close>
  as a mean is the \<open>nan\<close> that \<open>np.mean\<close> returns for an empty selection.
\<close>

datatype date = Date (year: int) (month: int) (day: int)

type_synonym frame = "(date \<times> rat) list"

text \<open>\<open>min(df['Date'].dt.f)\<close>: Python's \<open>min\<close> raises on an empty sequence.\<close>

definition py_min :: "int list \<Rightarrow> error + int" where
  "py_min xs = (case xs of [] \<Rightarrow> Inl ValueError | v # vs \<Rightarrow> Inr (fold min vs v))"

definition field_min :: "(date \<Rightarrow> int) \<Rightarrow> frame \<Rightarrow> error + int" where
  "field_min f df = py_min (map (\<lambda>r. f (fst r)) df)"

definition np_mean :: "rat list \<Rightarrow> rat option" where
  "np_mean vs = (if vs = [] then None else Some (sum_list vs / of_nat (length vs)))"

text \<open>\<open>np.mean(df[(df['Date'].dt.year == five_yrs)]['Percent'])\<close>\<close>

definition mean_5yrs :: "int \<Rightarrow> frame \<Rightarrow> rat option" where
  "mean_5yrs five_yrs df = np_mean (map snd (filter (\<lambda>r. year (fst r) = five_yrs) df))"

text \<open>Comparisons of two means: every comparison with \<open>nan\<close> is false.\<close>

definition gt :: "rat option \<Rightarrow> rat option \<Rightarrow> bool" where
  "gt a b = (case (a, b) of (Some u, Some v) \<Rightarrow> u > v | _ \<Rightarrow> False)"

definition lt :: "rat option \<Rightarrow> rat option \<Rightarrow> bool" where
  "lt a b = (case (a, b) of (Some u, Some v) \<Rightarrow> u < v | _ \<Rightarrow> False)"

definition eq :: "rat option \<Rightarrow> rat option \<Rightarrow> bool" where
  "eq a b = (case (a, b) of (Some u, Some v) \<Rightarrow> u = v | _ \<Rightarrow> False)"

section \<open>Series aligner\<close>

text \<open>The boolean masks of \<open>single\<close> (lines 128 to 130), \<open>two\<close> (208 to 213) and
  \<open>three\<close> (304 to 312), with the minima computed in the order of the source.\<close>

definition align_single :: "frame \<Rightarrow> frame \<Rightarrow> error + frame" where
  "align_single df df_us =
    bind_err (field_min year df) (\<lambda>y1.
    bind_err (field_min month df) (\<lambda>m1.
    bind_err (field_min day df) (\<lambda>d1.
      Inr (filter (\<lambda>r. year (fst r) \<ge> y1 \<and> month (fst r) \<ge> m1 \<and> day (fst r) \<ge> d1) df_us))))"

definition align_two :: "frame \<Rightarrow> frame \<Rightarrow> frame \<Rightarrow> error + frame" where
  "align_two df df_2 df_us =
    bind_err (field_min year df) (\<lambda>y1.
    bind_err (field_min year df_2) (\<lambda>y2.
    bind_err (field_min month df) (\<lambda>m1.
    bind_err (field_min month df_2) (\<lambda>m2.
    bind_err (field_min day df) (\<lambda>d1.
    bind_err (field_min day df_2) (\<lambda>d2.
      Inr (filter (\<lambda>r. year (fst r) \<ge> y1 \<and> year (fst r) \<ge> y2 \<and>
                       month (fst r) \<ge> m1 \<and> month (fst r) \<ge> m2 \<and>
                       day (fst r) \<ge> d1 \<and> day (fst r) \<ge> d2) df_us)))))))"

definition align_three :: "frame \<Rightarrow> frame \<Rightarrow> frame \<Rightarrow> frame \<Rightarrow> error + frame" where
  "align_three df df_2 df_3 df_us =
    bind_err (field_min year df) (\<lambda>y1.
    bind_err (field_min year df_2) (\<lambda>y2.
    bind_err (field_min year df_3) (\<lambda>y3.
    bind_err (field_min month df) (\<lambda>m1.
    bind_err (field_min month df_2) (\<lambda>m2.
    bind_err (field_min month df_3) (\<lambda>m3.
    bind_err (field_min day df) (\<lambda>d1.
    bind_err (field_min day df_2) (\<lambda>d2.
    bind_err (field_min day df_3) (\<lambda>d3.
      Inr (filter (\<lambda>r. year (fst r) \<ge> y1 \<and> year (fst r) \<ge> y2 \<and> year (fst r) \<ge> y3 \<and>
                       month (fst r) \<ge> m1 \<and> month (fst r) \<ge> m2 \<and> month (fst r) \<ge> m3 \<and>
                       day (fst r) \<ge> d1 \<and> day (fst r) \<ge> d2 \<and> day (fst r) \<ge> d3)
             df_us))))))))))"

text \<open>The aligner as the specification words it: one minimum year, one minimum month
  and one minimum day, each found across all the requested state series together.\<close>

definition align_spec :: "frame list \<Rightarrow> frame \<Rightarrow> error + frame" where
  "align_spec states df_us =
    bind_err (field_min year (concat states)) (\<lambda>y.
    bind_err (field_min month (concat states)) (\<lambda>m.
    bind_err (field_min day (concat states)) (\<lambda>d.
      Inr (filter (\<lambda>r. year (fst r) \<ge> y \<and> month (fst r) \<ge> m \<and> day (fst r) \<ge> d) df_us))))"

text \<open>The compound-date filter the aligner is not: a row is kept when its date, as a
  whole, is not before the given start date.\<close>

definition date_le :: "date \<Rightarrow> date \<Rightarrow> bool" where
  "date_le d e =
    (year d < year e \<or> (year d = year e \<and> (month d < month e \<or>
       (month d = month e \<and> day d \<le> day e))))"

definition from_date :: "date \<Rightarrow> frame \<Rightarrow> frame" where
  "from_date start df_us = filter (\<lambda>r. date_le start (fst r)) df_us"

text \<open>A row meets the minima of a state series: each field of its date is at least the
  least value that field takes in the series.\<close>

definition meets_minima :: "date \<times> rat \<Rightarrow> frame \<Rightarrow> bool" where
  "meets_minima r s =
    (year (fst r) \<ge> Min (set (map (\<lambda>q. year (fst q)) s)) \<and>
     month (fst r) \<ge> Min (set (map (\<lambda>q. month (fst q)) s)) \<and>
     day (fst r) \<ge> Min (set (map (\<lambda>q. day (fst q)) s)))"

section \<open>Comparator\<close>

text \<open>The \<open>style\<close> dictionary each handler fills in; \<open>style k\<close> is \<open>style.get(k)\<close>.\<close>

type_synonym style = "string \<rightharpoonup> string"

definition single_style :: "int \<Rightarrow> string option \<Rightarrow> rat option \<Rightarrow> rat option \<Rightarrow> style" where
  "single_style five_yrs statename st_5yrs us_5yrs =
    (if gt st_5yrs us_5yrs then
       Map.empty
         (''title'' \<mapsto> fmt statename @ '' Unemployment Rates Averaged Higher than the United States since '' @ str_int five_yrs @ ''.'',
          ''state1color'' \<mapsto> ''#CC0000'',
          ''us_color'' \<mapsto> ''#4BB543'')
     else if lt st_5yrs us_5yrs then
       Map.empty
         (''title'' \<mapsto> fmt statename @ '' Unemployment Rates Averaged Lower than the United States since '' @ str_int five_yrs @ ''.'',
          ''state1color'' \<mapsto> ''#4BB543'',
          ''us_color'' \<mapsto> ''#CC0000'')
     else if eq st_5yrs us_5yrs then
       Map.empty
         (''title'' \<mapsto> fmt statename @ '' Averaged the Same Unemployment as the United States since '' @ str_int five_yrs @ ''.'',
          ''state1color'' \<mapsto> ''#4BB543'',
          ''us_color'' \<mapsto> ''darkcyan'')
     else Map.empty)"

definition two_style ::
  "int \<Rightarrow> string option \<Rightarrow> string option \<Rightarrow> rat option \<Rightarrow> rat option \<Rightarrow> style" where
  "two_style five_yrs statename state2 st_5yrs st2_5yrs =
    (if gt st_5yrs st2_5yrs then
       Map.empty
         (''title'' \<mapsto> fmt statename @ '' Averaged Higher Unemployment than '' @ fmt state2 @ '' since '' @ str_int five_yrs @ ''.'',
          ''state1color'' \<mapsto> ''#CC0000'',
          ''state2color'' \<mapsto> ''#4BB543'',
          ''us_color'' \<mapsto> ''black'')
     else if lt st_5yrs st2_5yrs then
       Map.empty
         (''title'' \<mapsto> fmt statename @ '' Averaged Lower Unemployment than '' @ fmt state2 @ '' since '' @ str_int five_yrs @ ''.'',
          ''state1color'' \<mapsto> ''#4BB543'',
          ''state2color'' \<mapsto> ''#CC0000'',
          ''us_color'' \<mapsto> ''black'')
     else if eq st_5yrs st2_5yrs then
       Map.empty
         (''title'' \<mapsto> fmt statename @ '' and '' @ fmt state2 @ '' Averaged the Same Unemployment since '' @ str_int five_yrs @ ''.'',
          ''state1color'' \<mapsto> ''#4BB543'',
          ''state2color'' \<mapsto> ''darkcyan'',
          ''us_color'' \<mapsto> ''black'')
     else Map.empty)"

text \<open>The conditions of the six branches of \<open>three\<close> (lines 322 to 357), in order.\<close>

definition three_conds :: "rat option \<Rightarrow> rat option \<Rightarrow> rat option \<Rightarrow> bool list" where
  "three_conds st_5yrs st2_5yrs st3_5yrs =
    [gt st_5yrs st2_5yrs \<and> gt st2_5yrs st3_5yrs,
     gt st_5yrs st3_5yrs \<and> gt st3_5yrs st2_5yrs,
     gt st2_5yrs st_5yrs \<and> gt st_5yrs st3_5yrs,
     gt st2_5yrs st3_5yrs \<and> gt st3_5yrs st_5yrs,
     gt st3_5yrs st2_5yrs \<and> gt st2_5yrs st_5yrs,
     gt st3_5yrs st_5yrs \<and> gt st_5yrs st2_5yrs]"

text \<open>What each branch stores, in the same order.\<close>

definition three_bodies :: "int \<Rightarrow> string option \<Rightarrow> string option \<Rightarrow> string option \<Rightarrow> style list"
where
  "three_bodies five_yrs statename state2 state3 =
    [Map.empty
       (''title'' \<mapsto> fmt statename @ '' Averaged Higher Unemployment than '' @ fmt state2 @ '' and '' @ fmt state3 @ '' since '' @ str_int five_yrs @ ''.'',
        ''state1color'' \<mapsto> ''#CC0000'',
        ''state2color'' \<mapsto> ''darkcyan'',
        ''state3color'' \<mapsto> ''#4BB543'',
        ''us_color'' \<mapsto> ''black''),
     Map.empty
       (''title'' \<mapsto> fmt statename @ '' Averaged Higher Unemployment than '' @ fmt state2 @ '' and '' @ fmt state3 @ '' since '' @ str_int five_yrs @ ''.'',
        ''state1color'' \<mapsto> ''#CC0000'',
        ''state2color'' \<mapsto> ''#4BB543'',
        ''state3color'' \<mapsto> ''darkcyan'',
        ''us_color'' \<mapsto> ''black''),
     Map.empty
       (''title'' \<mapsto> fmt statename @ '' Averaged Higher Unemployment than '' @ fmt state3 @ '', but lower than '' @ fmt state2 @ '' since '' @ str_int five_yrs @ ''.'',
        ''state1color'' \<mapsto> ''darkcyan'',
        ''state2color'' \<mapsto> ''#CC0000'',
        ''state3color'' \<mapsto> ''#4BB543'',
        ''us_color'' \<mapsto> ''black''),
     Map.empty
       (''title'' \<mapsto> fmt statename @ '' Averaged Lower Unemployment than '' @ fmt state2 @ '' and '' @ fmt state3 @ '' since '' @ str_int five_yrs @ ''.'',
        ''state1color'' \<mapsto> ''#4BB543'',
        ''state2color'' \<mapsto> ''#CC0000'',
        ''state3color'' \<mapsto> ''darkcyan'',
        ''us_color'' \<mapsto> ''black''),
     Map.empty
       (''title'' \<mapsto> fmt statename @ '' Averaged Lower Unemployment than '' @ fmt state2 @ '' and '' @ fmt state3 @ '' since '' @ str_int five_yrs @ ''.'',
        ''state1color'' \<mapsto> ''#4BB543'',
        ''state2color'' \<mapsto> ''darkcyan'',
        ''state3color'' \<mapsto> ''#CC0000'',
        ''us_color'' \<mapsto> ''black''),
     Map.empty
       (''title'' \<mapsto> fmt statename @ '' Averaged Lower Unemployment than '' @ fmt state3 @ '', but higher than '' @ fmt state2 @ '' since '' @ str_int five_yrs @ ''.'',
        ''state1color'' \<mapsto> ''darkcyan'',
        ''state2color'' \<mapsto> ''#4BB543'',
        ''state3color'' \<mapsto> ''#CC0000'',
        ''us_color'' \<mapsto> ''black'')]"

text \<open>An \<open>if\<close>/\<open>elif\<close> chain without \<open>else\<close>: the body of the first condition that
  holds is taken, and the dictionary stays empty when none holds.\<close>

fun first_branch :: "bool list \<Rightarrow> style list \<Rightarrow> style" where
  "first_branch (c # cs) (b # bs) = (if c then b else first_branch cs bs)"
| "first_branch _ _ = Map.empty"

definition three_style ::
  "int \<Rightarrow> string option \<Rightarrow> string option \<Rightarrow> string option \<Rightarrow>
   rat option \<Rightarrow> rat option \<Rightarrow> rat option \<Rightarrow> style" where
  "three_style five_yrs statename state2 state3 st_5yrs st2_5yrs st3_5yrs =
    first_branch (three_conds st_5yrs st2_5yrs st3_5yrs)
                 (three_bodies five_yrs statename state2 state3)"


section \<open>Renderer\<close>

text \<open>
  The chart as the handlers assemble it: one \<open>go.Scatter\<close> per trace, in the order of the
  \<open>add_trace\<close> calls, and the layout fields that are set. A colour, a dash style or a
  title that is \<open>None\<close> is an absent field. Serialisation (\<open>fig.to_json()\<close>,
  \<open>fig.to_image\<close>) belongs to the charting library: a response holds the figure and
  says which of the two was asked for.
\<close>

record scatter =
  sc_x :: "date list"
  sc_y :: "rat list"
  sc_name :: "string option"
  sc_color :: "string option"
  sc_dash :: "string option"

record figure =
  traces :: "scatter list"
  title_text :: "string option"
  font_family :: string
  font_size :: int
  legend_title :: string
  fig_height :: "int option"
  fig_width :: "int option"
  xaxis_title :: string
  yaxis_title :: string
  paper_bgcolor :: string
  plot_bgcolor :: string

text \<open>\<open>NoneResponse\<close> is the handler returning \<open>None\<close>, which the framework sends as a
  null body.\<close>

datatype response = JsonChart figure | PngChart figure | NoneResponse

definition add_scatter :: "frame \<Rightarrow> string option \<Rightarrow> string option \<Rightarrow> string option \<Rightarrow> scatter"
where
  "add_scatter df nm color dash =
    \<lparr>sc_x = map fst df, sc_y = map snd df, sc_name = nm, sc_color = color, sc_dash = dash\<rparr>"

definition make_figure :: "scatter list \<Rightarrow> style \<Rightarrow> int option \<Rightarrow> int option \<Rightarrow> figure" where
  "make_figure ts style h w =
    \<lparr>traces = ts, title_text = style ''title'',
     font_family = ''Open Sans, extra bold'', font_size = 9, legend_title = ''States'',
     fig_height = h, fig_width = w,
     xaxis_title = ''Date'', yaxis_title = ''Percent Unemployed'',
     paper_bgcolor = ''rgba(0,0,0,0)'', plot_bgcolor = ''rgba(0,0,0,0)''\<rparr>"

definition respond :: "string option \<Rightarrow> figure \<Rightarrow> response" where
  "respond view fig = (if truthy view then PngChart fig else JsonChart fig)"


section \<open>Handlers\<close>

text \<open>
  The upstream provider is a map from URL to the frame \<open>pd.read_csv\<close> parses there;
  \<open>None\<close> is a retrieval that raises. A handler returns the URLs it has requested, in
  order, together with its result. \<open>five_yrs\<close> is the module constant
  \<open>datetime.now().year - 5\<close>.
\<close>

type_synonym upstream = "string \<rightharpoonup> frame"

type_synonym 'a io = "string list \<times> (error + 'a)"

definition five_yrs_of :: "int \<Rightarrow> int" where
  "five_yrs_of now_year = now_year - 5"

definition state_url :: "string \<Rightarrow> string" where
  "state_url statecode = ''https://fred.stlouisfed.org/graph/fredgraph.csv?id='' @ statecode @ ''UR''"

definition us_url :: string where
  "us_url = ''https://fred.stlouisfed.org/graph/fredgraph.csv?id=UNRATE''"

text \<open>\<open>single\<close> after its two retrievals (lines 127 to 183).\<close>

definition single_chart ::
  "int \<Rightarrow> string option \<Rightarrow> frame \<Rightarrow> frame \<Rightarrow> string option \<Rightarrow> error + response" where
  "single_chart five_yrs statename df df_us0 view =
    bind_err (align_single df df_us0) (\<lambda>df_us.
      let us_5yrs = mean_5yrs five_yrs df_us;
          st_5yrs = mean_5yrs five_yrs df;
          style = single_style five_yrs statename st_5yrs us_5yrs;
          fig = make_figure
                  [add_scatter df statename (style ''state1color'') None,
                   add_scatter df_us (Some ''United States'') (style ''us_color'') (Some ''dash'')]
                  style None None
      in Inr (respond view fig))"

definition single :: "int \<Rightarrow> upstream \<Rightarrow> string \<Rightarrow> string option \<Rightarrow> response io" where
  "single five_yrs fred statecode view =
    (let statename = statecodes statecode; url = state_url statecode in
     case fred url of
       None \<Rightarrow> ([url], Inl (ReadCsvError url))
     | Some df \<Rightarrow>
        (case fred us_url of
           None \<Rightarrow> ([url, us_url], Inl (ReadCsvError us_url))
         | Some df_us \<Rightarrow> ([url, us_url], single_chart five_yrs statename df df_us view)))"

text \<open>\<open>two\<close> after its three retrievals (lines 207 to 273).\<close>

definition two_chart ::
  "int \<Rightarrow> string option \<Rightarrow> string option \<Rightarrow> frame \<Rightarrow> frame \<Rightarrow> frame \<Rightarrow> string option \<Rightarrow>
   error + response" where
  "two_chart five_yrs statename state2 df df_2 df_us0 view =
    bind_err (align_two df df_2 df_us0) (\<lambda>df_us.
      let st_5yrs = mean_5yrs five_yrs df;
          st2_5yrs = mean_5yrs five_yrs df_2;
          style = two_style five_yrs statename state2 st_5yrs st2_5yrs;
          fig = make_figure
                  [add_scatter df statename (style ''state1color'') None,
                   add_scatter df_2 state2 (style ''state2color'') None,
                   add_scatter df_us (Some ''United States'') (style ''us_color'') (Some ''dash'')]
                  style (Some 412) (Some 640)
      in Inr (respond view fig))"

definition two :: "int \<Rightarrow> upstream \<Rightarrow> string \<Rightarrow> string \<Rightarrow> string option \<Rightarrow> response io" where
  "two five_yrs fred statecode statecode2 view =
    (let statename = statecodes statecode; state2 = statecodes statecode2;
         url = state_url statecode; url_2 = state_url statecode2 in
     case fred url of
       None \<Rightarrow> ([url], Inl (ReadCsvError url))
     | Some df \<Rightarrow>
        (case fred url_2 of
           None \<Rightarrow> ([url, url_2], Inl (ReadCsvError url_2))
         | Some df_2 \<Rightarrow>
            (case fred us_url of
               None \<Rightarrow> ([url, url_2, us_url], Inl (ReadCsvError us_url))
             | Some df_us \<Rightarrow>
                 ([url, url_2, us_url],
                  two_chart five_yrs statename state2 df df_2 df_us view))))"

text \<open>\<open>three\<close> after its four retrievals (lines 303 to 400).\<close>

definition three_chart ::
  "int \<Rightarrow> string option \<Rightarrow> string option \<Rightarrow> string option \<Rightarrow>
   frame \<Rightarrow> frame \<Rightarrow> frame \<Rightarrow> frame \<Rightarrow> string option \<Rightarrow> error + response" where
  "three_chart five_yrs statename state2 state3 df df_2 df_3 df_us0 view =
    bind_err (align_three df df_2 df_3 df_us0) (\<lambda>df_us.
      let st_5yrs = mean_5yrs five_yrs df;
          st2_5yrs = mean_5yrs five_yrs df_2;
          st3_5yrs = mean_5yrs five_yrs df_3;
          style = three_style five_yrs statename state2 state3 st_5yrs st2_5yrs st3_5yrs;
          fig = make_figure
                  [add_scatter df statename (style ''state1color'') None,
                   add_scatter df_us (Some ''United States'') (style ''us_color'') (Some ''dash''),
                   add_scatter df_2 state2 (style ''state2color'') None,
                   add_scatter df_3 state3 (style ''state3color'') None]
                  style None None
      in Inr (respond view fig))"

definition three ::
  "int \<Rightarrow> upstream \<Rightarrow> string \<Rightarrow> string \<Rightarrow> string \<Rightarrow> string option \<Rightarrow> response io" where
  "three five_yrs fred statecode statecode2 statecode3 view =
    (let statename = statecodes statecode; state2 = statecodes statecode2;
         state3 = statecodes statecode3;
         url = state_url statecode; url_2 = state_url statecode2;
         url_3 = state_url statecode3 in
     case fred url of
       None \<Rightarrow> ([url], Inl (ReadCsvError url))
     | Some df \<Rightarrow>
        (case fred url_2 of
           None \<Rightarrow> ([url, url_2], Inl (ReadCsvError url_2))
         | Some df_2 \<Rightarrow>
            (case fred url_3 of
               None \<Rightarrow> ([url, url_2, url_3], Inl (ReadCsvError url_3))
             | Some df_3 \<Rightarrow>
                (case fred us_url of
                   None \<Rightarrow> ([url, url_2, url_3, us_url], Inl (ReadCsvError us_url))
                 | Some df_us \<Rightarrow>
                     ([url, url_2, url_3, us_url],
                      three_chart five_yrs statename state2 state3 df df_2 df_3 df_us view)))))"

section \<open>Endpoint\<close>

text \<open>Lines 95 to 109: the three dispatch tests, and the implicit \<open>return None\<close> when
  none of them holds.\<close>

definition view_arg :: "string option \<Rightarrow> string option" where
  "view_arg view = (if truthy view \<and> title (the view) = ''True'' then Some ''True'' else None)"

definition dispatch ::
  "int \<Rightarrow> upstream \<Rightarrow> string \<Rightarrow> string option \<Rightarrow> string option \<Rightarrow> string option \<Rightarrow> response io"
where
  "dispatch five_yrs fred statecode statecode2 statecode3 view =
    (if truthy (Some statecode) \<and> \<not> truthy statecode2 \<and> \<not> truthy statecode3
     then single five_yrs fred statecode (view_arg view)
     else if truthy (Some statecode) \<and> truthy statecode2 \<and> \<not> truthy statecode3
     then two five_yrs fred statecode (the statecode2) (view_arg view)
     else if truthy (Some statecode) \<and> truthy statecode2 \<and> truthy statecode3
     then three five_yrs fred statecode (the statecode2) (the statecode3) (view_arg view)
     else ([], Inr NoneResponse))"

definition unemployment_visualization ::
  "int \<Rightarrow> upstream \<Rightarrow> string \<Rightarrow> string option \<Rightarrow> string option \<Rightarrow> string option \<Rightarrow> response io"
where
  "unemployment_visualization now_year fred statecode statecode2 statecode3 view =
    (case normalize_request statecode statecode2 statecode3 of
       Inl e \<Rightarrow> ([], Inl e)
     | Inr (c1, c2, c3) \<Rightarrow> dispatch (five_yrs_of now_year) fred c1 c2 c3 view)"

text \<open>The status line the framework derives from a handler's outcome: the code of an
  \<open>HTTPException\<close>, 500 for any other exception, 200 for a returned value.\<close>

definition status_code :: "error + response \<Rightarrow> int" where
  "status_code r =
    (case r of Inl (HTTPException code detail) \<Rightarrow> code | Inl _ \<Rightarrow> 500 | Inr _ \<Rightarrow> 200)"

section \<open>Properties of the request normalizer\<close>

lemmas string_eval = upper_def upper_char_def upper_table_def truthy_def
  in_statecodes_def statecodes_def statecodes_items_def fmt_def


lemma statecodes_Nil: "statecodes [] = None"
  by (simp add: statecodes_def statecodes_items_def)

lemma in_statecodes_truthy: "in_statecodes v \<Longrightarrow> truthy v"
  by (auto simp: in_statecodes_def truthy_def statecodes_Nil split: option.splits)

lemma upper_Nil_iff: "upper s = [] \<longleftrightarrow> s = []"
  by (simp add: upper_def)











text \<open>
  C10. A request with a registered first code, an empty second slot and a registered
  third code different from the first passes validation, is left unchanged by the
  deduplication, matches none of the three dispatch tests and returns \<open>None\<close> without
  any retrieval: status 200 with a null body.
\<close>

theorem gap_request_returns_none:
  "in_statecodes (Some (upper s1)) \<and> in_statecodes (Some (upper s3)) \<and> upper s1 \<noteq> upper s3 \<and>
   \<not> truthy s2 \<longrightarrow>
     normalize_request s1 s2 (Some s3) = Inr (upper s1, s2, Some (upper s3)) \<and>
     unemployment_visualization y fred s1 s2 (Some s3) v = ([], Inr NoneResponse) \<and>
     status_code (snd (unemployment_visualization y fred s1 s2 (Some s3) v)) = 200"
proof (intro impI, elim conjE)
  assume ok: "in_statecodes (Some (upper s1))" "in_statecodes (Some (upper s3))"
    and ne: "upper s1 \<noteq> upper s3" and s2: "\<not> truthy s2"
  have t1: "truthy (Some (upper s1))" using ok(1) by (rule in_statecodes_truthy)
  have t3: "truthy (Some (upper s3))" using ok(2) by (rule in_statecodes_truthy)
  then have s3: "s3 \<noteq> []" by (simp add: truthy_def upper_Nil_iff)
  have v: "validate s1 s2 (Some s3) = Inr (upper s1, s2, Some (upper s3))"
    using ok s2 s3 by (simp add: validate_def Let_def truthy_def [of "Some s3"])
  have d: "dedup (upper s1) s2 (Some (upper s3)) = (s2, Some (upper s3))"
    using ne s2 t1 t3 by (cases s2) (auto simp: dedup_def truthy_def Let_def)
  have n: "normalize_request s1 s2 (Some s3) = Inr (upper s1, s2, Some (upper s3))"
    by (simp add: normalize_request_def v bind_err_def d)
  have e: "unemployment_visualization y fred s1 s2 (Some s3) v = ([], Inr NoneResponse)"
    using s2 t3 by (simp add: unemployment_visualization_def n dispatch_def)
  show "normalize_request s1 s2 (Some s3) = Inr (upper s1, s2, Some (upper s3)) \<and>
     unemployment_visualization y fred s1 s2 (Some s3) v = ([], Inr NoneResponse) \<and>
     status_code (snd (unemployment_visualization y fred s1 s2 (Some s3) v)) = 200"
    by (simp add: n e status_code_def)
qed

theorem gap_request_returns_none_witness:
  "in_statecodes (Some (upper ''CA'')) \<and> in_statecodes (Some (upper ''ny'')) \<and>
   upper ''CA'' \<noteq> upper ''ny'' \<and> \<not> truthy None \<and>
   unemployment_visualization 2020 Map.empty ''CA'' None (Some ''ny'') None = ([], Inr NoneResponse)"
  using gap_request_returns_none [of "''CA''" "''ny''" None 2020 Map.empty None]
  by (simp add: string_eval)

section \<open>Properties of the comparator and the charts\<close>


lemma field_min_ok:
  "df \<noteq> [] \<Longrightarrow> field_min f df = Inr (Min (set (map (\<lambda>r. f (fst r)) df)))"
  by (cases df) (simp_all add: field_min_def py_min_def Min.set_eq_fold del: set_simps)

lemma align_single_ok:
  assumes "df \<noteq> []"
  shows "\<exists>df_us. align_single df us = Inr df_us"
  by (simp add: align_single_def field_min_ok [OF assms] bind_err_def)










text \<open>The title alone does not tell the six orderings apart: the first two branches
  share one title, and so do the fourth and the fifth.\<close>

lemma three_titles_shared:
  "map (\<lambda>s. s ''title'') (three_bodies fy n1 n2 n3) =
     [t1, t2, t3, t4, t5, t6] \<Longrightarrow> t1 = t2 \<and> t4 = t5"
  by (auto simp: three_bodies_def)



















section \<open>Properties of the aligner and of the trailing mean\<close>

lemma align_single_meets:
  assumes "df \<noteq> []"
  shows "align_single df us = Inr (filter (\<lambda>r. meets_minima r df) us)"
  by (simp add: align_single_def field_min_ok [OF assms] bind_err_def meets_minima_def)

lemma align_two_meets:
  assumes "df \<noteq> []" "df_2 \<noteq> []"
  shows "align_two df df_2 us = Inr (filter (\<lambda>r. meets_minima r df \<and> meets_minima r df_2) us)"
  by (simp add: align_two_def field_min_ok [OF assms(1)] field_min_ok [OF assms(2)]
      bind_err_def meets_minima_def conj_ac)

lemma align_three_meets:
  assumes "df \<noteq> []" "df_2 \<noteq> []" "df_3 \<noteq> []"
  shows "align_three df df_2 df_3 us =
    Inr (filter (\<lambda>r. meets_minima r df \<and> meets_minima r df_2 \<and> meets_minima r df_3) us)"
  by (simp add: align_three_def field_min_ok [OF assms(1)] field_min_ok [OF assms(2)]
      field_min_ok [OF assms(3)] bind_err_def meets_minima_def conj_ac)

lemma align_single_spec: "align_single df us = align_spec [df] us"
  by (simp add: align_single_def align_spec_def)

text \<open>
  C3 with one minimum per field, taken across all the requested state series
  together, does not describe \<open>three\<close>: for state series starting
  in 1976, 1980 and 1976 the code drops a national observation of 1978, which that
  reading keeps.
\<close>

theorem aligner_global_minimum_counterexample:
  "align_three [(Date 1976 1 1, 5)] [(Date 1980 1 1, 5)] [(Date 1976 1 1, 5)] [(Date 1978 1 1, 6)]
     = Inr [] \<and>
   align_spec [[(Date 1976 1 1, 5)], [(Date 1980 1 1, 5)], [(Date 1976 1 1, 5)]] [(Date 1978 1 1, 6)]
     = Inr [(Date 1978 1 1, 6)]"
  by (simp add: align_three_def align_spec_def field_min_def py_min_def bind_err_def)

text \<open>
  C3. The aligner keeps exactly the national observations that meet the
  minima of every requested state series: the year is at least each series' least
  year, the month at least each series' least month, the day at least each series'
  least day, so each field is thresholded by the largest of the per-series minima.
  For a single state this is the field-wise minimum of that series. It is not the
  filter on whole dates: an observation of 1977-01-01 is dropped for a state series
  that starts on 1976-06-15.
\<close>

theorem aligner_fieldwise_per_series:
  "align_single df us = align_spec [df] us \<and>
   (df \<noteq> [] \<longrightarrow> align_single df us = Inr (filter (\<lambda>r. meets_minima r df) us)) \<and>
   (df \<noteq> [] \<and> df_2 \<noteq> [] \<longrightarrow>
      align_two df df_2 us = Inr (filter (\<lambda>r. meets_minima r df \<and> meets_minima r df_2) us)) \<and>
   (df \<noteq> [] \<and> df_2 \<noteq> [] \<and> df_3 \<noteq> [] \<longrightarrow>
      align_three df df_2 df_3 us =
        Inr (filter (\<lambda>r. meets_minima r df \<and> meets_minima r df_2 \<and> meets_minima r df_3) us)) \<and>
   align_single [(Date 1976 6 15, 5)] [(Date 1977 1 1, 6)] = Inr [] \<and>
   from_date (Date 1976 6 15) [(Date 1977 1 1, 6)] = [(Date 1977 1 1, 6)]"
proof (intro conjI impI)
  show "align_single df us = align_spec [df] us"
    by (rule align_single_spec)
  show "align_single df us = Inr (filter (\<lambda>r. meets_minima r df) us)" if "df \<noteq> []"
    using that by (rule align_single_meets)
  show "align_two df df_2 us = Inr (filter (\<lambda>r. meets_minima r df \<and> meets_minima r df_2) us)"
    if "df \<noteq> [] \<and> df_2 \<noteq> []"
    using that by (simp add: align_two_meets)
  show "align_three df df_2 df_3 us =
        Inr (filter (\<lambda>r. meets_minima r df \<and> meets_minima r df_2 \<and> meets_minima r df_3) us)"
    if "df \<noteq> [] \<and> df_2 \<noteq> [] \<and> df_3 \<noteq> []"
    using that by (simp add: align_three_meets)
  show "align_single [(Date 1976 6 15, 5)] [(Date 1977 1 1, 6)] = Inr []"
    by (simp add: align_single_def field_min_def py_min_def bind_err_def)
  show "from_date (Date 1976 6 15) [(Date 1977 1 1, 6)] = [(Date 1977 1 1, 6)]"
    by (simp add: from_date_def date_le_def)
qed

theorem aligner_fieldwise_per_series_witness:
  "[(Date 1976 1 1, 5::rat)] \<noteq> [] \<and> [(Date 1980 1 1, 5::rat)] \<noteq> [] \<and>
   align_three [(Date 1976 1 1, 5)] [(Date 1980 1 1, 5)] [(Date 1976 1 1, 5)]
     [(Date 1978 1 1, 6), (Date 1981 3 1, 7)] = Inr [(Date 1981 3 1, 7)] \<and>
   align_two [(Date 1976 1 1, 5)] [(Date 1980 1 1, 5)]
     [(Date 1978 1 1, 6), (Date 1981 3 1, 7)] = Inr [(Date 1981 3 1, 7)] \<and>
   align_single [(Date 1976 1 1, 5)]
     [(Date 1978 1 1, 6), (Date 1981 3 1, 7)] = Inr [(Date 1978 1 1, 6), (Date 1981 3 1, 7)]"
  using aligner_fieldwise_per_series [of "[(Date 1976 1 1, 5)]" "[(Date 1978 1 1, 6), (Date 1981 3 1, 7)]"
      "[(Date 1980 1 1, 5)]" "[(Date 1976 1 1, 5)]"]
  by (simp add: meets_minima_def align_spec_def field_min_def py_min_def bind_err_def)



end
